theory Spec2Isabelle
  imports Complex_Main "HOL-Library.AList"
begin

section \<open>Python strings\<close>

text \<open>
  A Python \<open>str\<close> is modelled as a \<open>string\<close>; a \<open>char\<close> stands for the code point
  of the same number (U+0000 to U+00FF), so \<open>length\<close> is Python's \<open>len\<close> and \<open>take\<close> is
  a slice \<open>[:n]\<close>. On these code points \<open>str.isspace\<close> holds for 9 to 13, 28 to 32,
  133 and 160, and \<open>str.lower\<close> moves A to Z and the upper-case letters of 192 to 222
  (215, the multiplication sign, has no case) up by 32.
\<close>

definition isspace :: "char \<Rightarrow> bool" where
  "isspace c = (let n = (of_char c :: nat) in
     (9 \<le> n \<and> n \<le> 13) \<or> (28 \<le> n \<and> n \<le> 32) \<or> n = 133 \<or> n = 160)"

definition lower_char :: "char \<Rightarrow> char" where
  "lower_char c = (let n = (of_char c :: nat) in
     if (65 \<le> n \<and> n \<le> 90) \<or> (192 \<le> n \<and> n \<le> 222 \<and> n \<noteq> 215)
     then char_of (n + 32) else c)"

definition str_lower :: "string \<Rightarrow> string" where
  "str_lower s = map lower_char s"

text \<open>
  \<open>s.split()\<close> with no argument: the maximal runs of characters that are not white
  space, in order; no empty word. \<open>split_from word s\<close> carries the word read so far.
\<close>

fun split_from :: "string \<Rightarrow> string \<Rightarrow> string list" where
  "split_from word [] = (if word = [] then [] else [word])"
| "split_from word (c # cs) =
     (if isspace c then (if word = [] then split_from [] cs else word # split_from [] cs)
      else split_from (word @ [c]) cs)"

definition str_split :: "string \<Rightarrow> string list" where
  "str_split s = split_from [] s"

text \<open>\<open>s.strip()\<close>: white space removed at both ends.\<close>

definition str_strip :: "string \<Rightarrow> string" where
  "str_strip s = rev (dropWhile isspace (rev (dropWhile isspace s)))"

section \<open>The performance monitor: \<open>estimate_task_complexity\<close>\<close>

definition complexity_keywords :: "(string \<times> int) list" where
  "complexity_keywords =
    [(''implement'', 3), (''create'', 3), (''build'', 4), (''design'', 4),
     (''refactor'', 3), (''migrate'', 4), (''integrate'', 4),
     (''fix'', 2), (''update'', 2), (''modify'', 2),
     (''analyze'', 2), (''review'', 2), (''document'', 2),
     (''test'', 2), (''debug'', 3), (''optimize'', 3)]"

text \<open>
  The loop \<open>for word in words\<close>: \<open>base_complexity\<close> is raised to the weight of every
  word that is a key of the dictionary.
\<close>

fun scan_words :: "string list \<Rightarrow> int \<Rightarrow> int" where
  "scan_words [] base_complexity = base_complexity"
| "scan_words (word # words) base_complexity =
     scan_words words
       (case map_of complexity_keywords word of
          Some weight \<Rightarrow> max base_complexity weight
        | None \<Rightarrow> base_complexity)"

definition estimate_task_complexity :: "string \<Rightarrow> int" where
  "estimate_task_complexity task_description =
    (let words = str_split (str_lower task_description);
         base_complexity = scan_words words 1;
         base_complexity =
           (if length task_description > 200 then base_complexity + 1 else base_complexity)
     in min base_complexity 5)"


section \<open>The performance monitor: the metrics store\<close>

text \<open>
  A naive local \<open>datetime\<close> is the number of its microseconds, \<open>timedelta(hours=n)\<close> a
  difference of such numbers. In the store a timestamp string (\<open>isoformat\<close>) is
  represented by the instant it denotes (\<open>fromisoformat\<close>), and a key \<open>YYYY-MM-DD\<close> of
  \<open>daily_stats\<close> (\<open>strftime\<close>) by the number of the day it names.
\<close>

type_synonym time = int

type_synonym day = int

definition day_of :: "time \<Rightarrow> day" where
  "day_of t = t div 86400000000"

definition timedelta_hours :: "int \<Rightarrow> time" where
  "timedelta_hours n = n * 3600000000"

text \<open>
  The dictionaries with fixed keys are records; \<open>agents\<close> and \<open>daily_stats\<close>, whose keys
  are data, are association lists in insertion order, read with \<open>map_of\<close> and written
  with \<open>AList.update\<close> (an existing key keeps its place, a new one goes last, as in a
  Python \<open>dict\<close>). The counters and complexities are Python integers, unbounded;
  \<open>avg_complexity\<close> holds the value of a float as the rational number it is (\<open>NaN\<close> and
  the infinities are left out).
\<close>

record call_record =
  timestamp :: time
  task :: string
  complexity :: int

record agent_stats =
  total_calls :: int
  recent_calls :: "call_record list"
  avg_complexity :: rat

text \<open>
  The value under \<open>agents_used\<close> is a list of names when it was read from the file or
  written by line 74, and the empty Python set \<open>set()\<close> when line 51 has just put it
  there. The key may be absent (\<open>None\<close>): line 74 reads it with \<open>.get\<close>.
\<close>

datatype collection = Py_empty_set | Py_list "string list"

record daily =
  daily_total_calls :: int
  agents_used :: "collection option"
  parallel_sessions :: int

record metrics =
  agents :: "(string \<times> agent_stats) list"
  daily_stats :: "(day \<times> daily) list"
  last_cleanup :: time

datatype exn =
    KeyError | TypeError | AttributeError | JSONDecodeError | OverflowError | ZeroDivisionError

text \<open>
  What \<open>json.load\<close> returns for the metrics file: a document of the store's shape, a
  JSON object that has no key \<open>agents\<close>, or a JSON value that is not an object (an
  array, a string, a number, \<open>true\<close>, \<open>false\<close>, \<open>null\<close>). Objects with an \<open>agents\<close> key
  and another shape are not modelled.
\<close>

datatype document = Store metrics | Object_without_agents | Not_an_object

text \<open>
  The metrics file: absent, holding the beginning of a document (a \<open>json.dump\<close> that
  raised half-way), or holding a text. The texts are a type parameter: \<open>json.dump\<close>
  and \<open>json.load\<close> belong to Python's library and are taken as the functions
  \<open>json_dumps\<close> and \<open>json_loads\<close> (\<open>None\<close>: the text does not parse), as is the order
  in which \<open>list(set(xs))\<close> lists the elements of \<open>xs\<close>.
\<close>

datatype 't file_state = Missing | Partial | Text 't

record 't python =
  json_dumps :: "metrics \<Rightarrow> 't"
  json_loads :: "'t \<Rightarrow> document option"
  list_set :: "string list \<Rightarrow> string list"

datatype message =
    Failed_to_save
  | Recording string
  | Agent_calls int rat
  | Suggestion string
  | Monitoring_error exn

text \<open>
  The world of one run: the metrics file, whether \<open>open\<close> succeeds on it for reading
  and for writing (\<open>makedirs\<close> included), and what has been printed to standard
  error.
\<close>

record 't world =
  metrics_file :: "'t file_state"
  readable :: bool
  writable :: bool
  stderr :: "message list"

text \<open>
  The readings of \<open>datetime.now()\<close> during one call, in the order of the source: line 22
  (only when no document was loaded), line 37, line 59 and line 65.
\<close>

record clock =
  now_load :: time
  now_today :: time
  now_stamp :: time
  now_cutoff :: time

subsection \<open>\<open>load_metrics\<close> and \<open>save_metrics\<close>\<close>

definition fresh_metrics :: "time \<Rightarrow> metrics" where
  "fresh_metrics now = \<lparr>agents = [], daily_stats = [], last_cleanup = now\<rparr>"

text \<open>
  Without a file (\<open>os.path.exists\<close>) the fresh store is returned; every exception
  raised between \<open>try\<close> and \<open>except: pass\<close>, by \<open>open\<close> or by \<open>json.load\<close>, leads to
  it as well; what \<open>json.load\<close> returns is returned as it is, whatever its shape.
\<close>

definition load_metrics :: "'t python \<Rightarrow> time \<Rightarrow> 't world \<Rightarrow> document" where
  "load_metrics py now w =
    (case metrics_file w of
       Missing \<Rightarrow> Store (fresh_metrics now)
     | Partial \<Rightarrow> Store (fresh_metrics now)
     | Text t \<Rightarrow>
         (if \<not> readable w then Store (fresh_metrics now)
          else
            (case json_loads py t of
               None \<Rightarrow> Store (fresh_metrics now)
             | Some d \<Rightarrow> d)))"

text \<open>\<open>json.dump\<close> raises \<open>TypeError\<close> at a Python set.\<close>

definition serializable :: "metrics \<Rightarrow> bool" where
  "serializable m = list_all (\<lambda>(d, s). agents_used s \<noteq> Some Py_empty_set) (daily_stats m)"

text \<open>
  \<open>save_metrics\<close> catches what \<open>makedirs\<close>, \<open>open\<close> and \<open>json.dump\<close> raise and prints
  it: where the file cannot be written it stays as it was; \<open>json.dump\<close> raising after
  \<open>open\<close> has truncated the file leaves the beginning of a document.
\<close>

definition save_metrics :: "'t python \<Rightarrow> 't world \<Rightarrow> metrics \<Rightarrow> 't world" where
  "save_metrics py w m =
    (if \<not> writable w then w\<lparr>stderr := stderr w @ [Failed_to_save]\<rparr>
     else if serializable m then w\<lparr>metrics_file := Text (json_dumps py m)\<rparr>
     else w\<lparr>metrics_file := Partial, stderr := stderr w @ [Failed_to_save]\<rparr>)"

subsection \<open>Division of integers\<close>

text \<open>
  Line 79, \<open>sum(complexities) / len(complexities)\<close>, divides two Python integers: the
  result is the quotient rounded to the nearest IEEE 754 binary64 number, ties to the
  even significand, and \<open>OverflowError\<close> when that is beyond the largest float, that is
  from \<open>2 ^ 1024 - 2 ^ 970\<close> on. \<open>bit_length\<close> is \<open>int.bit_length\<close>; \<open>floor_log2 q\<close> is the
  exponent \<open>e\<close> with \<open>2 ^ e \<le> q < 2 ^ (e + 1)\<close> of a positive \<open>q\<close>; a float of exponent
  \<open>e\<close> is a multiple of \<open>2 ^ (e - 52)\<close>, and of \<open>2 ^ (- 1074)\<close> below the normal range.
\<close>

fun bit_length :: "nat \<Rightarrow> nat" where
  "bit_length n = (if n = 0 then 0 else Suc (bit_length (n div 2)))"

definition pow2 :: "int \<Rightarrow> rat" where
  "pow2 e = (if 0 \<le> e then 2 ^ nat e else 1 / 2 ^ nat (- e))"

definition floor_log2 :: "rat \<Rightarrow> int" where
  "floor_log2 q =
    (let (a, b) = quotient_of q;
         d = int (bit_length (nat a)) - int (bit_length (nat b))
     in if pow2 d \<le> q then d else d - 1)"

definition round_half_even :: "rat \<Rightarrow> int" where
  "round_half_even x =
    (let n = \<lfloor>x\<rfloor>; r = x - of_int n
     in if r < 1 / 2 then n else if 1 / 2 < r then n + 1 else if even n then n else n + 1)"

definition round_double :: "rat \<Rightarrow> rat" where
  "round_double q =
    (if q = 0 then 0
     else
       (let e = max (floor_log2 \<bar>q\<bar>) (- 1022);
            ulp = pow2 (e - 52)
        in of_int (round_half_even (q / ulp)) * ulp))"

definition true_divide :: "int \<Rightarrow> int \<Rightarrow> exn + rat" where
  "true_divide a b =
    (if b = 0 then Inl ZeroDivisionError
     else
       (let q = of_int a / of_int b
        in if 2 ^ 1024 - 2 ^ 970 \<le> \<bar>q\<bar> then Inl OverflowError else Inr (round_double q)))"

subsection \<open>\<open>record_agent_invocation\<close>\<close>

text \<open>
  Line 74, \<open>daily.get("agents_used", []) + [agent_name]\<close>: a list is extended, an
  absent key reads as \<open>[]\<close>, and a set on the left of \<open>+\<close> raises \<open>TypeError\<close>.
\<close>

definition agents_used_plus :: "collection option \<Rightarrow> string \<Rightarrow> exn + string list" where
  "agents_used_plus used agent_name =
    (case used of
       None \<Rightarrow> Inr ([] @ [agent_name])
     | Some (Py_list names) \<Rightarrow> Inr (names @ [agent_name])
     | Some Py_empty_set \<Rightarrow> Inl TypeError)"

text \<open>
  Lines 55 to 69 on the agent's dictionary: the counter, the new call, and the calls
  of the last 24 hours.
\<close>

definition record_invocation :: "clock \<Rightarrow> string \<Rightarrow> agent_stats \<Rightarrow> agent_stats" where
  "record_invocation clk task_description agent_stats =
    (let agent_stats = agent_stats\<lparr>total_calls := total_calls agent_stats + 1\<rparr>;
         agent_stats = agent_stats\<lparr>recent_calls := recent_calls agent_stats @
           [\<lparr>timestamp = now_stamp clk,
             task = take 100 task_description,
             complexity = estimate_task_complexity task_description\<rparr>]\<rparr>;
         cutoff = now_cutoff clk - timedelta_hours 24
     in agent_stats\<lparr>recent_calls :=
          filter (\<lambda>call. timestamp call > cutoff) (recent_calls agent_stats)\<rparr>)"

text \<open>Lines 71 to 74 on the dictionary of the day.\<close>

definition update_daily :: "'t python \<Rightarrow> string \<Rightarrow> daily \<Rightarrow> exn + daily" where
  "update_daily py agent_name daily =
    (let daily = daily\<lparr>daily_total_calls := daily_total_calls daily + 1\<rparr>
     in case agents_used_plus (agents_used daily) agent_name of
          Inl e \<Rightarrow> Inl e
        | Inr names \<Rightarrow> Inr (daily\<lparr>agents_used := Some (Py_list (list_set py names))\<rparr>))"

text \<open>
  Lines 76 to 79: with no recent call left the average stays what it was.
\<close>

definition calculate_average :: "agent_stats \<Rightarrow> exn + agent_stats" where
  "calculate_average agent_stats =
    (if recent_calls agent_stats \<noteq> [] then
       (case true_divide (sum_list (map complexity (recent_calls agent_stats)))
               (int (length (recent_calls agent_stats))) of
          Inl e \<Rightarrow> Inl e
        | Inr average \<Rightarrow> Inr (agent_stats\<lparr>avg_complexity := average\<rparr>))
     else Inr agent_stats)"

text \<open>
  The result is what the call returns or raises, with the world after it.
  \<open>agent_stats\<close> and \<open>daily\<close> are the dictionaries inside \<open>metrics\<close> that the source
  mutates in place; the model writes them back under their keys once they have their
  final value. An exception leaves the function before \<open>save_metrics\<close>.
\<close>

definition record_agent_invocation ::
  "'t python \<Rightarrow> clock \<Rightarrow> 't world \<Rightarrow> string \<Rightarrow> string \<Rightarrow> (exn + metrics) \<times> 't world" where
  "record_agent_invocation py clk w agent_name task_description =
    (case load_metrics py (now_load clk) w of
       Not_an_object \<Rightarrow> (Inl TypeError, w)
     | Object_without_agents \<Rightarrow> (Inl KeyError, w)
     | Store metrics \<Rightarrow>
        (let today = day_of (now_today clk);
             agent_stats =
               (case map_of (agents metrics) agent_name of
                  None \<Rightarrow> \<lparr>total_calls = 0, recent_calls = [], avg_complexity = 0\<rparr>
                | Some stats \<Rightarrow> stats);
             daily =
               (case map_of (daily_stats metrics) today of
                  None \<Rightarrow> \<lparr>daily_total_calls = 0, agents_used = Some Py_empty_set,
                            parallel_sessions = 0\<rparr>
                | Some d \<Rightarrow> d);
             agent_stats = record_invocation clk task_description agent_stats
         in case update_daily py agent_name daily of
              Inl e \<Rightarrow> (Inl e, w)
            | Inr daily \<Rightarrow>
               (case calculate_average agent_stats of
                  Inl e \<Rightarrow> (Inl e, w)
                | Inr agent_stats \<Rightarrow>
                   (let metrics = metrics\<lparr>
                          agents := AList.update agent_name agent_stats (agents metrics),
                          daily_stats := AList.update today daily (daily_stats metrics)\<rparr>
                    in (Inr metrics, save_metrics py w metrics)))))"

subsection \<open>\<open>suggest_optimizations\<close>\<close>

text \<open>
  \<open>metrics["agents"].get(agent_name, {})\<close>: \<open>None\<close> stands for the empty dictionary,
  whose keys all read as their defaults. \<open>recent_calls[-5:]\<close> drops all but the last
  five; \<open>len(set(xs))\<close> is the number of different elements.
\<close>

definition suggest_optimizations :: "metrics \<Rightarrow> string \<Rightarrow> string list" where
  "suggest_optimizations metrics agent_name =
    (let agent_stats = map_of (agents metrics) agent_name;
         suggestions = [];
         suggestions =
           (if (case agent_stats of None \<Rightarrow> 0 | Some s \<Rightarrow> total_calls s) > 10 then
              (if (case agent_stats of None \<Rightarrow> 0 | Some s \<Rightarrow> avg_complexity s) < 2
               then suggestions @ [''Consider combining simple tasks to reduce overhead'']
               else suggestions)
            else suggestions);
         recent_calls = (case agent_stats of None \<Rightarrow> [] | Some s \<Rightarrow> recent_calls s);
         suggestions =
           (if length recent_calls > 5 then
              (let recent_tasks = map task (drop (length recent_calls - 5) recent_calls)
               in if length (remdups recent_tasks) < 3
                  then suggestions @ [''Detected repetitive tasks - consider batch processing'']
                  else suggestions)
            else suggestions)
     in suggestions)"

subsection \<open>The script\<close>

text \<open>
  Standard input: a text that is not JSON, a JSON value that is not an object
  (\<open>data.get\<close> raises \<open>AttributeError\<close>), or an event; an absent key is \<open>None\<close>.
\<close>

record task_input =
  subagent_type :: "string option"
  prompt :: "string option"

record event =
  tool_name :: "string option"
  tool_input :: "task_input option"

datatype stdin = Not_json | Not_a_dict | Event event

definition main_body ::
  "'t python \<Rightarrow> clock \<Rightarrow> 't world \<Rightarrow> stdin \<Rightarrow> (exn + unit) \<times> 't world" where
  "main_body py clk w input =
    (case input of
       Not_json \<Rightarrow> (Inl JSONDecodeError, w)
     | Not_a_dict \<Rightarrow> (Inl AttributeError, w)
     | Event data \<Rightarrow>
        (let tool_name = (case tool_name data of None \<Rightarrow> [] | Some n \<Rightarrow> n) in
         if tool_name = ''Task'' then
           (let tool_input =
                  (case tool_input data of
                     None \<Rightarrow> \<lparr>subagent_type = None, prompt = None\<rparr>
                   | Some i \<Rightarrow> i);
                agent_name =
                  (case subagent_type tool_input of None \<Rightarrow> ''unknown'' | Some a \<Rightarrow> a);
                task_description = (case prompt tool_input of None \<Rightarrow> [] | Some p \<Rightarrow> p);
                w = w\<lparr>stderr := stderr w @ [Recording agent_name]\<rparr>
            in case record_agent_invocation py clk w agent_name task_description of
                 (Inl e, w) \<Rightarrow> (Inl e, w)
               | (Inr metrics, w) \<Rightarrow>
                  (let suggestions = suggest_optimizations metrics agent_name in
                   case map_of (agents metrics) agent_name of
                     None \<Rightarrow> (Inl KeyError, w)
                   | Some agent_stats \<Rightarrow>
                       (Inr (), w\<lparr>stderr := stderr w
                          @ [Agent_calls (total_calls agent_stats) (avg_complexity agent_stats)]
                          @ map Suggestion suggestions\<rparr>)))
         else (Inr (), w)))"

text \<open>The agent name and the task description that line 134 and line 135 read.\<close>

definition event_agent_name :: "event \<Rightarrow> string" where
  "event_agent_name data =
    (case tool_input data of
       None \<Rightarrow> ''unknown''
     | Some i \<Rightarrow> (case subagent_type i of None \<Rightarrow> ''unknown'' | Some a \<Rightarrow> a))"

definition event_task_description :: "event \<Rightarrow> string" where
  "event_task_description data =
    (case tool_input data of
       None \<Rightarrow> []
     | Some i \<Rightarrow> (case prompt i of None \<Rightarrow> [] | Some p \<Rightarrow> p))"

text \<open>
  The whole script, with the exit status of the process: \<open>sys.exit(0)\<close> in the handler
  of \<open>except Exception\<close>, and 0 when the script reaches its end.
\<close>

definition main :: "'t python \<Rightarrow> clock \<Rightarrow> 't world \<Rightarrow> stdin \<Rightarrow> 't world \<times> nat" where
  "main py clk w input =
    (case main_body py clk w input of
       (Inl e, w') \<Rightarrow> (w'\<lparr>stderr := stderr w' @ [Monitoring_error e]\<rparr>, 0)
     | (Inr u, w') \<Rightarrow> (w', 0))"

text \<open>
  An instance of the library for evaluation: the text of a document is the document
  itself, and \<open>list(set(xs))\<close> keeps the first occurrences in order.
\<close>

definition plain_python :: "document python" where
  "plain_python = \<lparr>json_dumps = Store, json_loads = Some, list_set = remdups\<rparr>"

section \<open>The result validator: \<open>validate_agent_result\<close>\<close>

text \<open>\<open>s.split('\n')\<close>: the pieces between the line feeds, empty ones included.\<close>

fun lines_from :: "string \<Rightarrow> string \<Rightarrow> string list" where
  "lines_from line [] = [line]"
| "lines_from line (c # cs) =
     (if c = CHR 0x0A then line # lines_from [] cs else lines_from (line @ [c]) cs)"

definition split_lines :: "string \<Rightarrow> string list" where
  "split_lines s = lines_from [] s"

text \<open>A natural number in decimal, as an f-string prints it.\<close>

fun str_nat :: "nat \<Rightarrow> string" where
  "str_nat n =
     (if n < 10 then [char_of (48 + n)] else str_nat (n div 10) @ [char_of (48 + n mod 10)])"

record criteria =
  required_patterns :: "string list"
  forbidden_patterns :: "string list"
  min_lines :: nat

definition UNIVERSAL_FORBIDDEN :: "string list" where
  "UNIVERSAL_FORBIDDEN =
    [''TODO:|FIXME:'',
     ''backwards? compatib'',
     ''in a real (implementation|app|application|world|scenario)'',
     ''console'' @ [CHR 0x5C] @ ''.log'']"

definition QUALITY_GATES :: "(string \<times> criteria) list" where
  "QUALITY_GATES =
    [(''backend-database-engineer'',
      \<lparr>required_patterns =
         [''migration|schema|query|database|server|action|api|endpoint|route''],
       forbidden_patterns = [],
       min_lines = 5\<rparr>),
     (''frontend-ui-specialist'',
      \<lparr>required_patterns = [''component|jsx?|tsx?|css''],
       forbidden_patterns = [''alert'' @ [CHR 0x5C] @ ''(''],
       min_lines = 10\<rparr>),
     (''code-quality-reviewer'',
      \<lparr>required_patterns = [''test|spec|coverage|lint''],
       forbidden_patterns = [''skipped|disabled|ignored''],
       min_lines = 3\<rparr>),
     (''feature-architect-planner'',
      \<lparr>required_patterns = [''## |### |'' @ [CHR 0x5C] @ ''* ''],
       forbidden_patterns = [''I think|Maybe|Perhaps''],
       min_lines = 20\<rparr>)]"

text \<open>
  \<open>re_search pattern s\<close> stands for \<open>re.search(pattern, s, re.IGNORECASE)\<close> finding a
  match; the regular expressions are Python's library and stay a parameter. The loops
  return at the first pattern that fails.
\<close>

definition validate_agent_result ::
  "(string \<Rightarrow> string \<Rightarrow> bool) \<Rightarrow> string \<Rightarrow> string \<Rightarrow> bool \<times> string" where
  "validate_agent_result re_search agent_name result_text =
    (if result_text = [] \<or> length (str_strip result_text) < 10
     then (False, ''Output too short or empty'')
     else
       (case map_of QUALITY_GATES agent_name of
          None \<Rightarrow> (True, ''No specific criteria defined'')
        | Some criteria \<Rightarrow>
           (let lines = split_lines result_text in
            if length lines < min_lines criteria
            then (False, ''Output too short: '' @ str_nat (length lines)
                         @ '' lines, need '' @ str_nat (min_lines criteria))
            else
              (case find (\<lambda>pattern. \<not> re_search pattern result_text)
                      (required_patterns criteria) of
                 Some pattern \<Rightarrow> (False, ''Missing required content pattern: '' @ pattern)
               | None \<Rightarrow>
                  (case find (\<lambda>pattern. re_search pattern result_text)
                          (UNIVERSAL_FORBIDDEN @ forbidden_patterns criteria) of
                     Some pattern \<Rightarrow> (False, ''Contains forbidden pattern: '' @ pattern)
                   | None \<Rightarrow> (True, ''Quality gates passed''))))))"

section \<open>Properties of \<open>estimate_task_complexity\<close>\<close>

lemma keyword_weight_le_4:
  "map_of complexity_keywords word = Some weight \<Longrightarrow> weight \<le> 4"
  by (auto simp: complexity_keywords_def split: if_splits)

lemma scan_words_ge_base: "b \<le> scan_words words b"
proof (induction words arbitrary: b)
  case Nil
  show ?case by simp
next
  case (Cons word words)
  show ?case
  proof (cases "map_of complexity_keywords word")
    case None
    with Cons.IH [of b] show ?thesis by simp
  next
    case (Some weight)
    have "b \<le> max b weight" by simp
    also have "max b weight \<le> scan_words words (max b weight)" by (rule Cons.IH)
    finally show ?thesis using Some by simp
  qed
qed

lemma scan_words_ge_weight:
  "word \<in> set words \<Longrightarrow> map_of complexity_keywords word = Some weight \<Longrightarrow>
   weight \<le> scan_words words b"
proof (induction words arbitrary: b)
  case Nil
  then show ?case by simp
next
  case (Cons w words)
  show ?case
  proof (cases "w = word")
    case True
    have "weight \<le> max b weight" by simp
    also have "max b weight \<le> scan_words words (max b weight)" by (rule scan_words_ge_base)
    finally show ?thesis using True Cons.prems(2) by simp
  next
    case False
    with Cons.prems have "word \<in> set words" by simp
    from Cons.IH [OF this Cons.prems(2)] show ?thesis by simp
  qed
qed

lemma scan_words_no_keyword:
  "\<forall>word \<in> set words. map_of complexity_keywords word = None \<Longrightarrow> scan_words words b = b"
  by (induction words arbitrary: b) simp_all

text \<open>
  Claim C4. A task description one of whose lower-cased, white-space delimited words
  is a key of \<open>complexity_keywords\<close> is estimated at that key's weight or more, and
  every estimate lies between 1 and 5.
\<close>

theorem estimate_task_complexity_bounds:
  "(\<forall>word weight.
      word \<in> set (str_split (str_lower text)) \<and> map_of complexity_keywords word = Some weight
      \<longrightarrow> weight \<le> estimate_task_complexity text)
   \<and> 1 \<le> estimate_task_complexity text \<and> estimate_task_complexity text \<le> 5"
proof -
  let ?words = "str_split (str_lower text)"
  have lower: "1 \<le> scan_words ?words 1" by (rule scan_words_ge_base)
  have weights: "weight \<le> estimate_task_complexity text"
    if "word \<in> set ?words" and "map_of complexity_keywords word = Some weight"
    for word weight
  proof -
    from that have "weight \<le> scan_words ?words 1" by (rule scan_words_ge_weight)
    moreover from that(2) have "weight \<le> 4" by (rule keyword_weight_le_4)
    ultimately show ?thesis by (simp add: estimate_task_complexity_def Let_def)
  qed
  from lower have "1 \<le> estimate_task_complexity text"
    by (simp add: estimate_task_complexity_def Let_def)
  moreover have "estimate_task_complexity text \<le> 5"
    by (simp add: estimate_task_complexity_def Let_def)
  ultimately show ?thesis using weights by blast
qed

theorem estimate_task_complexity_bounds_witness:
  "''implement'' \<in> set (str_split (str_lower ''Implement feature''))
   \<and> map_of complexity_keywords ''implement'' = Some 3
   \<and> 3 \<le> estimate_task_complexity ''Implement feature''
   \<and> 1 \<le> estimate_task_complexity ''Implement feature''
   \<and> estimate_task_complexity ''Implement feature'' \<le> 5"
proof -
  have word: "''implement'' \<in> set (str_split (str_lower ''Implement feature''))"
    by code_simp
  have weight: "map_of complexity_keywords ''implement'' = Some 3"
    by (simp add: complexity_keywords_def)
  from word weight estimate_task_complexity_bounds [of "''Implement feature''"]
  show ?thesis by blast
qed

text \<open>
  Claim C9. A task description of 250 characters none of whose words is a key of
  \<open>complexity_keywords\<close> is estimated at 2: the base 1 and 1 more for a text longer
  than 200 characters.
\<close>

theorem estimate_task_complexity_long_text:
  assumes "length text = 250"
    and "\<forall>word \<in> set (str_split (str_lower text)). map_of complexity_keywords word = None"
  shows "estimate_task_complexity text = 2"
proof -
  from assms(2) have "scan_words (str_split (str_lower text)) 1 = 1"
    by (rule scan_words_no_keyword)
  with assms(1) show ?thesis
    by (simp add: estimate_task_complexity_def Let_def)
qed

theorem estimate_task_complexity_long_text_witness:
  "length (replicate 250 CHR ''x'') = 250
   \<and> str_split (str_lower (replicate 250 CHR ''x'')) = [replicate 250 CHR ''x'']
   \<and> map_of complexity_keywords (replicate 250 CHR ''x'') = None
   \<and> estimate_task_complexity (replicate 250 CHR ''x'') = 2"
proof -
  have len: "length (replicate 250 CHR ''x'') = 250" by simp
  have words: "str_split (str_lower (replicate 250 CHR ''x'')) = [replicate 250 CHR ''x'']"
    by code_simp
  have none: "map_of complexity_keywords (replicate 250 CHR ''x'') = None"
    by code_simp
  from words none
  have "\<forall>word \<in> set (str_split (str_lower (replicate 250 CHR ''x''))).
          map_of complexity_keywords word = None"
    by simp
  from estimate_task_complexity_long_text [OF len this] len words none
  show ?thesis by simp
qed

section \<open>Properties of \<open>load_metrics\<close>, \<open>save_metrics\<close> and the script\<close>


text \<open>
  The script ends with exit status 0 on every path, and on a Task event it logs what
  \<open>record_agent_invocation\<close> raises, or the counters and suggestions of the store it
  returns.
\<close>

lemma main_exit_status: "snd (main py clk w input) = 0"
  by (simp add: main_def split: prod.splits sum.splits)

lemma main_task_event:
  assumes "tool_name data = Some ''Task''"
  shows "main py clk w (Event data) =
    (case record_agent_invocation py clk
            (w\<lparr>stderr := stderr w @ [Recording (event_agent_name data)]\<rparr>)
            (event_agent_name data) (event_task_description data) of
       (Inl e, w') \<Rightarrow> (w'\<lparr>stderr := stderr w' @ [Monitoring_error e]\<rparr>, 0)
     | (Inr m', w') \<Rightarrow>
        (case map_of (agents m') (event_agent_name data) of
           None \<Rightarrow> (w'\<lparr>stderr := stderr w' @ [Monitoring_error KeyError]\<rparr>, 0)
         | Some s \<Rightarrow>
            (w'\<lparr>stderr := stderr w'
               @ [Agent_calls (total_calls s) (avg_complexity s)]
               @ map Suggestion (suggest_optimizations m' (event_agent_name data))\<rparr>, 0)))"
  using assms
  by (auto simp: main_def main_body_def event_agent_name_def event_task_description_def Let_def
      split: prod.splits sum.splits option.splits)

text \<open>
  Claim C7, as stated: a metrics file that is missing, unreadable or malformed is
  replaced by a fresh empty store, and processing continues. A file that parses as
  JSON is returned as it is, whatever its shape: here it holds a JSON value that is
  not an object (an array, say), and \<open>load_metrics\<close> returns that value, not a store.
\<close>

theorem load_metrics_returns_other_shapes:
  "load_metrics plain_python 0
     \<lparr>metrics_file = Text Not_an_object, readable = True, writable = True, stderr = []\<rparr>
     = Not_an_object
   \<and> load_metrics plain_python 0
     \<lparr>metrics_file = Text Not_an_object, readable = True, writable = True, stderr = []\<rparr>
     \<noteq> Store (fresh_metrics 0)"
  by (simp add: load_metrics_def plain_python_def)

text \<open>
  Claim C7, amended. When the metrics file is missing, cannot be read or does not
  parse as JSON (it holds a text that is not JSON, or the beginning of a document),
  \<open>load_metrics\<close> returns a fresh store whose \<open>agents\<close> and \<open>daily_stats\<close> are empty; a
  file that parses is returned as it is. Whatever the file and the input, the script
  ends with exit status 0: input that is not a JSON object is logged as a monitoring
  error, an event that is not a Task changes nothing, and on a Task event what
  \<open>record_agent_invocation\<close> raises is caught and logged as a monitoring error, while
  the store it returns is reported with its counters and its suggestions.
\<close>

theorem load_metrics_and_exit_status:
  "(metrics_file w = Missing \<or> \<not> readable w \<or> metrics_file w = Partial
      \<or> (\<exists>t. metrics_file w = Text t \<and> json_loads py t = None)
     \<longrightarrow> load_metrics py now w = Store (fresh_metrics now)
         \<and> agents (fresh_metrics now) = [] \<and> daily_stats (fresh_metrics now) = [])
   \<and> (\<forall>t d. metrics_file w = Text t \<and> readable w \<and> json_loads py t = Some d
         \<longrightarrow> load_metrics py now w = d)
   \<and> snd (main py clk w input) = 0
   \<and> (input = Not_json
        \<longrightarrow> fst (main py clk w input) = w\<lparr>stderr := stderr w @ [Monitoring_error JSONDecodeError]\<rparr>)
   \<and> (input = Not_a_dict
        \<longrightarrow> fst (main py clk w input) = w\<lparr>stderr := stderr w @ [Monitoring_error AttributeError]\<rparr>)
   \<and> (\<forall>data. input = Event data \<and> tool_name data \<noteq> Some ''Task''
        \<longrightarrow> fst (main py clk w input) = w)
   \<and> (\<forall>data e w'. input = Event data \<and> tool_name data = Some ''Task''
          \<and> record_agent_invocation py clk
               (w\<lparr>stderr := stderr w @ [Recording (event_agent_name data)]\<rparr>)
               (event_agent_name data) (event_task_description data) = (Inl e, w')
        \<longrightarrow> fst (main py clk w input) = w'\<lparr>stderr := stderr w' @ [Monitoring_error e]\<rparr>)
   \<and> (\<forall>data m' w' s. input = Event data \<and> tool_name data = Some ''Task''
          \<and> record_agent_invocation py clk
               (w\<lparr>stderr := stderr w @ [Recording (event_agent_name data)]\<rparr>)
               (event_agent_name data) (event_task_description data) = (Inr m', w')
          \<and> map_of (agents m') (event_agent_name data) = Some s
        \<longrightarrow> fst (main py clk w input) =
              w'\<lparr>stderr := stderr w'
                @ [Agent_calls (total_calls s) (avg_complexity s)]
                @ map Suggestion (suggest_optimizations m' (event_agent_name data))\<rparr>)"
proof -
  have fresh: "load_metrics py now w = Store (fresh_metrics now)"
    if "metrics_file w = Missing \<or> \<not> readable w \<or> metrics_file w = Partial
      \<or> (\<exists>t. metrics_file w = Text t \<and> json_loads py t = None)"
    using that by (auto simp: load_metrics_def split: file_state.splits)
  have parsed: "load_metrics py now w = d"
    if "metrics_file w = Text t" "readable w" "json_loads py t = Some d" for t d
    using that by (simp add: load_metrics_def)
  have not_json: "fst (main py clk w Not_json)
      = w\<lparr>stderr := stderr w @ [Monitoring_error JSONDecodeError]\<rparr>"
    by (simp add: main_def main_body_def)
  have not_dict: "fst (main py clk w Not_a_dict)
      = w\<lparr>stderr := stderr w @ [Monitoring_error AttributeError]\<rparr>"
    by (simp add: main_def main_body_def)
  have other: "fst (main py clk w (Event data)) = w" if "tool_name data \<noteq> Some ''Task''" for data
    using that by (auto simp: main_def main_body_def Let_def split: option.splits)
  have raised: "fst (main py clk w (Event data)) = w'\<lparr>stderr := stderr w' @ [Monitoring_error e]\<rparr>"
    if "tool_name data = Some ''Task''"
      "record_agent_invocation py clk
         (w\<lparr>stderr := stderr w @ [Recording (event_agent_name data)]\<rparr>)
         (event_agent_name data) (event_task_description data) = (Inl e, w')"
    for data e w'
    using that by (simp add: main_task_event)
  have returned: "fst (main py clk w (Event data)) =
      w'\<lparr>stderr := stderr w' @ [Agent_calls (total_calls s) (avg_complexity s)]
          @ map Suggestion (suggest_optimizations m' (event_agent_name data))\<rparr>"
    if "tool_name data = Some ''Task''"
      "record_agent_invocation py clk
         (w\<lparr>stderr := stderr w @ [Recording (event_agent_name data)]\<rparr>)
         (event_agent_name data) (event_task_description data) = (Inr m', w')"
      "map_of (agents m') (event_agent_name data) = Some s"
    for data m' w' s
    using that by (simp add: main_task_event)
  show ?thesis
    using fresh parsed main_exit_status [of py clk w input] not_json not_dict other raised returned
    by (simp add: fresh_metrics_def)
qed

theorem load_metrics_and_exit_status_witness:
  "load_metrics plain_python 7
     \<lparr>metrics_file = Missing, readable = True, writable = True, stderr = []\<rparr>
     = Store \<lparr>agents = [], daily_stats = [], last_cleanup = 7\<rparr>
   \<and> main plain_python \<lparr>now_load = 7, now_today = 8, now_stamp = 9, now_cutoff = 10\<rparr>
       \<lparr>metrics_file = Missing, readable = True, writable = True, stderr = []\<rparr>
       (Event \<lparr>tool_name = Some ''Edit'', tool_input = None\<rparr>)
     = (\<lparr>metrics_file = Missing, readable = True, writable = True, stderr = []\<rparr>, 0)
   \<and> main plain_python \<lparr>now_load = 7, now_today = 8, now_stamp = 9, now_cutoff = 10\<rparr>
       \<lparr>metrics_file = Missing, readable = True, writable = True, stderr = []\<rparr> Not_json
     = (\<lparr>metrics_file = Missing, readable = True, writable = True,
          stderr = [Monitoring_error JSONDecodeError]\<rparr>, 0)
   \<and> load_metrics plain_python 7
       \<lparr>metrics_file = Text Object_without_agents, readable = True, writable = True,
         stderr = []\<rparr>
     = Object_without_agents
   \<and> main plain_python \<lparr>now_load = 7, now_today = 8, now_stamp = 9, now_cutoff = 10\<rparr>
       \<lparr>metrics_file = Text Object_without_agents, readable = True, writable = True,
         stderr = []\<rparr>
       (Event \<lparr>tool_name = Some ''Task'',
               tool_input = Some \<lparr>subagent_type = Some ''agentX'',
                                   prompt = Some ''implement feature''\<rparr>\<rparr>)
     = (\<lparr>metrics_file = Text Object_without_agents, readable = True, writable = True,
          stderr = [Recording ''agentX'', Monitoring_error KeyError]\<rparr>, 0)"
proof -
  let ?clk = "\<lparr>now_load = 7, now_today = 8, now_stamp = 9, now_cutoff = 10\<rparr>"
  let ?w = "\<lparr>metrics_file = Missing, readable = True, writable = True, stderr = []\<rparr>
    :: document world"
  let ?v = "\<lparr>metrics_file = Text Object_without_agents, readable = True, writable = True,
    stderr = []\<rparr>"
  let ?edit = "\<lparr>tool_name = Some ''Edit'', tool_input = None\<rparr>"
  let ?task = "\<lparr>tool_name = Some ''Task'',
    tool_input = Some \<lparr>subagent_type = Some ''agentX'', prompt = Some ''implement feature''\<rparr>\<rparr>"
  have agent: "event_agent_name ?task = ''agentX''"
    and prompt: "event_task_description ?task = ''implement feature''"
    by (simp_all add: event_agent_name_def event_task_description_def)
  have raises: "record_agent_invocation plain_python ?clk
      (?v\<lparr>stderr := stderr ?v @ [Recording (event_agent_name ?task)]\<rparr>)
      (event_agent_name ?task) (event_task_description ?task)
    = (Inl KeyError, ?v\<lparr>stderr := [Recording ''agentX'']\<rparr>)"
    by (simp add: agent prompt record_agent_invocation_def load_metrics_def plain_python_def)
  have parses: "json_loads plain_python Object_without_agents = Some Object_without_agents"
    by (simp add: plain_python_def)
  from load_metrics_and_exit_status [of ?w plain_python 7 ?clk "Event ?edit"]
  have "load_metrics plain_python 7 ?w = Store \<lparr>agents = [], daily_stats = [], last_cleanup = 7\<rparr>"
    and "main plain_python ?clk ?w (Event ?edit) = (?w, 0)"
    by (simp_all add: fresh_metrics_def prod_eq_iff)
  moreover from load_metrics_and_exit_status [of ?w plain_python 7 ?clk Not_json]
  have "main plain_python ?clk ?w Not_json
      = (?w\<lparr>stderr := [Monitoring_error JSONDecodeError]\<rparr>, 0)"
    by (simp add: prod_eq_iff)
  moreover from load_metrics_and_exit_status [of ?v plain_python 7 ?clk "Event ?task"]
    raises parses
  have "load_metrics plain_python 7 ?v = Object_without_agents"
    and "main plain_python ?clk ?v (Event ?task)
      = (?v\<lparr>stderr := [Recording ''agentX'', Monitoring_error KeyError]\<rparr>, 0)"
    by (simp_all add: prod_eq_iff)
  ultimately show ?thesis by simp
qed




section \<open>Properties of \<open>record_agent_invocation\<close>\<close>

text \<open>
  Claim C1 says that \<open>record_agent_invocation("agentX", "implement feature")\<close> on a
  store with no agents and no daily statistics returns a store with \<open>total_calls\<close> 1
  and \<open>avg_complexity\<close> 3 for the agent. On such a store the call returns nothing: the
  entry of the day is new, line 51 puts \<open>set()\<close> under \<open>agents_used\<close>, and line 74 raises
  \<open>TypeError\<close> on \<open>set() + [agent_name]\<close>, before the average is computed and before
  anything is saved.
\<close>

theorem record_agent_invocation_empty_store:
  assumes "load_metrics py (now_load clk) w = Store m"
    and "agents m = []" and "daily_stats m = []"
  shows "record_agent_invocation py clk w ''agentX'' ''implement feature'' = (Inl TypeError, w)"
  using assms
  by (simp add: record_agent_invocation_def Let_def update_daily_def agents_used_plus_def)

theorem record_agent_invocation_empty_store_witness:
  "load_metrics plain_python 0 \<lparr>metrics_file = Missing, readable = True, writable = True, stderr = []\<rparr>
     = Store (fresh_metrics 0)
   \<and> agents (fresh_metrics 0) = [] \<and> daily_stats (fresh_metrics 0) = []
   \<and> record_agent_invocation plain_python
        \<lparr>now_load = 0, now_today = 0, now_stamp = 0, now_cutoff = 0\<rparr>
        \<lparr>metrics_file = Missing, readable = True, writable = True, stderr = []\<rparr>
        ''agentX'' ''implement feature''
      = (Inl TypeError, \<lparr>metrics_file = Missing, readable = True, writable = True, stderr = []\<rparr>)"
proof -
  let ?w = "\<lparr>metrics_file = Missing, readable = True, writable = True, stderr = []\<rparr> :: document world"
  let ?clk = "\<lparr>now_load = 0, now_today = 0, now_stamp = 0, now_cutoff = 0\<rparr>"
  have l: "load_metrics plain_python (now_load ?clk) ?w = Store (fresh_metrics 0)"
    by (simp add: load_metrics_def)
  have a: "agents (fresh_metrics 0) = []" and d: "daily_stats (fresh_metrics 0) = []"
    by (simp_all add: fresh_metrics_def)
  from record_agent_invocation_empty_store [OF l a d] l a d show ?thesis by simp
qed

text \<open>
  Claim C5 says that two calls for one agent, 25 hours apart, leave only the second
  call in \<open>recent_calls\<close> and \<open>total_calls\<close> at 2. Starting without a metrics file, the
  first call raises \<open>TypeError\<close> at line 74 and saves nothing; the second call, at any
  later time, finds the file still missing and raises in the same way. No store is
  returned and none is written.
\<close>

theorem two_invocations_from_missing_file:
  "record_agent_invocation py clk1 (w\<lparr>metrics_file := Missing\<rparr>) agent_name task1
     = (Inl TypeError, w\<lparr>metrics_file := Missing\<rparr>)
   \<and> record_agent_invocation py clk2
       (snd (record_agent_invocation py clk1 (w\<lparr>metrics_file := Missing\<rparr>) agent_name task1))
       agent_name task2
     = (Inl TypeError, w\<lparr>metrics_file := Missing\<rparr>)"
  by (simp add: record_agent_invocation_def load_metrics_def fresh_metrics_def Let_def
      update_daily_def agents_used_plus_def)

text \<open>
  The sibling path: when the store already has the entry of the day, with a list
  under \<open>agents_used\<close>, the two scenarios come out as described: one call for
  \<open>implement feature\<close> gives \<open>total_calls\<close> 1 and \<open>avg_complexity\<close> 3, and a second call
  25 hours later leaves only its own record in \<open>recent_calls\<close>, with \<open>total_calls\<close> 2.
\<close>

lemma one_invocation_known_day:
  "fst (record_agent_invocation plain_python
        \<lparr>now_load = 5, now_today = 5, now_stamp = 6, now_cutoff = 7\<rparr>
        \<lparr>metrics_file = Text (Store
           \<lparr>agents = [],
             daily_stats =
               [(0, \<lparr>daily_total_calls = 0, agents_used = Some (Py_list []),
                      parallel_sessions = 0\<rparr>)],
             last_cleanup = 0\<rparr>),
          readable = True, writable = True, stderr = []\<rparr>
        ''agentX'' ''implement feature'')
   = Inr \<lparr>agents =
            [(''agentX'',
              \<lparr>total_calls = 1,
                recent_calls = [\<lparr>timestamp = 6, task = ''implement feature'', complexity = 3\<rparr>],
                avg_complexity = 3\<rparr>)],
          daily_stats =
            [(0, \<lparr>daily_total_calls = 1, agents_used = Some (Py_list [''agentX'']),
                   parallel_sessions = 0\<rparr>)],
          last_cleanup = 0\<rparr>"
  by code_simp

lemma two_invocations_known_days:
  "fst (record_agent_invocation plain_python
     \<lparr>now_load = 90000000005, now_today = 90000000005, now_stamp = 90000000006,
       now_cutoff = 90000000007\<rparr>
     (snd (record_agent_invocation plain_python
        \<lparr>now_load = 5, now_today = 5, now_stamp = 6, now_cutoff = 7\<rparr>
        \<lparr>metrics_file = Text (Store
           \<lparr>agents = [],
             daily_stats =
               [(0, \<lparr>daily_total_calls = 0, agents_used = Some (Py_list []),
                      parallel_sessions = 0\<rparr>),
                (1, \<lparr>daily_total_calls = 0, agents_used = Some (Py_list []),
                      parallel_sessions = 0\<rparr>)],
             last_cleanup = 0\<rparr>),
          readable = True, writable = True, stderr = []\<rparr>
        ''agentX'' ''implement feature''))
     ''agentX'' ''fix it'')
   = Inr \<lparr>agents =
            [(''agentX'',
              \<lparr>total_calls = 2,
                recent_calls = [\<lparr>timestamp = 90000000006, task = ''fix it'', complexity = 2\<rparr>],
                avg_complexity = 2\<rparr>)],
          daily_stats =
            [(0, \<lparr>daily_total_calls = 1, agents_used = Some (Py_list [''agentX'']),
                   parallel_sessions = 0\<rparr>),
             (1, \<lparr>daily_total_calls = 1, agents_used = Some (Py_list [''agentX'']),
                   parallel_sessions = 0\<rparr>)],
          last_cleanup = 0\<rparr>"
  by code_simp










section \<open>Properties of \<open>suggest_optimizations\<close>\<close>

text \<open>
  Claim C6. For every store and agent name, the suggestion to combine simple tasks
  is among the suggestions exactly when the agent is in the store with \<open>total_calls\<close>
  above 10 and \<open>avg_complexity\<close> below 2; otherwise, and for an agent the store does not
  know, it is absent.
\<close>

theorem suggest_optimizations_combine:
  "''Consider combining simple tasks to reduce overhead''
     \<in> set (suggest_optimizations m agent_name)
   \<longleftrightarrow> (\<exists>s. map_of (agents m) agent_name = Some s
            \<and> total_calls s > 10 \<and> avg_complexity s < 2)"
  by (cases "map_of (agents m) agent_name") (simp_all add: suggest_optimizations_def Let_def)

theorem suggest_optimizations_combine_witness:
  "''Consider combining simple tasks to reduce overhead''
     \<in> set (suggest_optimizations
         \<lparr>agents = [(''agentX'', \<lparr>total_calls = 11, recent_calls = [], avg_complexity = 3 / 2\<rparr>)],
           daily_stats = [], last_cleanup = 0\<rparr> ''agentX'')
   \<and> ''Consider combining simple tasks to reduce overhead''
     \<notin> set (suggest_optimizations
         \<lparr>agents = [(''agentX'', \<lparr>total_calls = 10, recent_calls = [], avg_complexity = 3 / 2\<rparr>)],
           daily_stats = [], last_cleanup = 0\<rparr> ''agentX'')
   \<and> ''Consider combining simple tasks to reduce overhead''
     \<notin> set (suggest_optimizations
         \<lparr>agents = [(''agentX'', \<lparr>total_calls = 11, recent_calls = [], avg_complexity = 2\<rparr>)],
           daily_stats = [], last_cleanup = 0\<rparr> ''agentX'')"
  using
    suggest_optimizations_combine [of
      "\<lparr>agents = [(''agentX'', \<lparr>total_calls = 11, recent_calls = [], avg_complexity = 3 / 2\<rparr>)],
        daily_stats = [], last_cleanup = 0\<rparr>" "''agentX''"]
    suggest_optimizations_combine [of
      "\<lparr>agents = [(''agentX'', \<lparr>total_calls = 10, recent_calls = [], avg_complexity = 3 / 2\<rparr>)],
        daily_stats = [], last_cleanup = 0\<rparr>" "''agentX''"]
    suggest_optimizations_combine [of
      "\<lparr>agents = [(''agentX'', \<lparr>total_calls = 11, recent_calls = [], avg_complexity = 2\<rparr>)],
        daily_stats = [], last_cleanup = 0\<rparr>" "''agentX''"]
  by simp

text \<open>
  Claim C3, as stated: whenever the last five \<open>recent_calls\<close> hold fewer than three
  different tasks, the suggestion about repetitive tasks is made. The source looks at
  the tasks only under the guard \<open>len(recent_calls) > 5\<close>: an agent with two recent
  calls, both for the same task, gets no such suggestion.
\<close>

theorem suggest_optimizations_two_calls:
  "card (set (map task (drop (length [\<lparr>timestamp = 0, task = ''fix bug'', complexity = 2\<rparr>,
                                       \<lparr>timestamp = 1, task = ''fix bug'', complexity = 2\<rparr>] - 5)
                          [\<lparr>timestamp = 0, task = ''fix bug'', complexity = 2\<rparr>,
                           \<lparr>timestamp = 1, task = ''fix bug'', complexity = 2\<rparr>]))) < 3
   \<and> ''Detected repetitive tasks - consider batch processing''
     \<notin> set (suggest_optimizations
         \<lparr>agents = [(''agentX'',
             \<lparr>total_calls = 2,
               recent_calls = [\<lparr>timestamp = 0, task = ''fix bug'', complexity = 2\<rparr>,
                               \<lparr>timestamp = 1, task = ''fix bug'', complexity = 2\<rparr>],
               avg_complexity = 2\<rparr>)],
           daily_stats = [], last_cleanup = 0\<rparr> ''agentX'')"
  by (simp add: suggest_optimizations_def Let_def)

text \<open>
  Claim C3, amended. For every store and agent name, if the agent has more than five
  \<open>recent_calls\<close> and the last five of them hold fewer than three different tasks, the
  suggestion about repetitive tasks is among the suggestions.
\<close>

theorem suggest_optimizations_repetitive:
  assumes "map_of (agents m) agent_name = Some s"
    and "length (recent_calls s) > 5"
    and "card (set (map task (drop (length (recent_calls s) - 5) (recent_calls s)))) < 3"
  shows "''Detected repetitive tasks - consider batch processing''
           \<in> set (suggest_optimizations m agent_name)"
  using assms by (simp add: suggest_optimizations_def Let_def length_remdups_card_conv)

theorem suggest_optimizations_repetitive_witness:
  "map_of (agents
      \<lparr>agents = [(''agentX'',
          \<lparr>total_calls = 6,
            recent_calls = replicate 6 \<lparr>timestamp = 0, task = ''fix bug'', complexity = 2\<rparr>,
            avg_complexity = 2\<rparr>)],
        daily_stats = [], last_cleanup = 0\<rparr>) ''agentX''
     = Some \<lparr>total_calls = 6,
             recent_calls = replicate 6 \<lparr>timestamp = 0, task = ''fix bug'', complexity = 2\<rparr>,
             avg_complexity = 2\<rparr>
   \<and> length (replicate 6 \<lparr>timestamp = 0, task = ''fix bug'', complexity = 2\<rparr>) > 5
   \<and> card (set (map task (drop (length (replicate 6 \<lparr>timestamp = 0, task = ''fix bug'',
                                                       complexity = 2\<rparr>) - 5)
                  (replicate 6 \<lparr>timestamp = 0, task = ''fix bug'', complexity = 2\<rparr>)))) < 3
   \<and> ''Detected repetitive tasks - consider batch processing''
     \<in> set (suggest_optimizations
         \<lparr>agents = [(''agentX'',
             \<lparr>total_calls = 6,
               recent_calls = replicate 6 \<lparr>timestamp = 0, task = ''fix bug'', complexity = 2\<rparr>,
               avg_complexity = 2\<rparr>)],
           daily_stats = [], last_cleanup = 0\<rparr> ''agentX'')"
proof -
  let ?calls = "replicate 6 \<lparr>timestamp = 0, task = ''fix bug'', complexity = 2\<rparr>"
  let ?s = "\<lparr>total_calls = 6, recent_calls = ?calls, avg_complexity = 2\<rparr>"
  let ?m = "\<lparr>agents = [(''agentX'', ?s)], daily_stats = [], last_cleanup = 0\<rparr>"
  have known: "map_of (agents ?m) ''agentX'' = Some ?s" by simp
  have many: "length (recent_calls ?s) > 5" by simp
  have few: "card (set (map task (drop (length (recent_calls ?s) - 5) (recent_calls ?s)))) < 3"
    by simp
  from suggest_optimizations_repetitive [OF known many few] known many few
  show ?thesis by simp
qed

section \<open>Properties of \<open>validate_agent_result\<close>\<close>

text \<open>
  Claim C10. For every agent name, with or without an entry in \<open>QUALITY_GATES\<close>, a
  result text that is empty or has fewer than 10 characters once stripped of white
  space is rejected with the reason \<open>Output too short or empty\<close>, whatever the quality
  criteria and the patterns say.
\<close>

theorem validate_agent_result_too_short:
  assumes "result_text = [] \<or> length (str_strip result_text) < 10"
  shows "validate_agent_result re_search agent_name result_text
           = (False, ''Output too short or empty'')"
  using assms by (auto simp: validate_agent_result_def)

theorem validate_agent_result_too_short_witness:
  "length (str_strip ''   all done  '') < 10
   \<and> validate_agent_result (\<lambda>pattern s. True) ''code-quality-reviewer'' ''   all done  ''
      = (False, ''Output too short or empty'')
   \<and> validate_agent_result (\<lambda>pattern s. True) ''unknown'' []
      = (False, ''Output too short or empty'')"
proof -
  have short: "length (str_strip ''   all done  '') < 10" by code_simp
  then have "''   all done  '' = [] \<or> length (str_strip ''   all done  '') < 10" ..
  from validate_agent_result_too_short [OF this]
    validate_agent_result_too_short [of "[]"] short
  show ?thesis by simp
qed

end
